theory Spec2Isabelle
  imports Main "HOL-Library.Word" "HOL-Library.Stream"
begin

section \<open>Data model of package kafka\<close>

text \<open>
  The configuration record of \<^verbatim>\<open>kafka.go\<close>, filled from the process environment.
  All six fields are Go strings.
\<close>

record Config =
  URL :: string
  TrustedCert :: string
  ClientCertKey :: string
  ClientCert :: string
  Prefix :: string
  ConsumerGroup :: string

type_synonym error = string
type_synonym certificate = string
type_synonym go_time = int

text \<open>
  The zero value of \<^verbatim>\<open>time.Time\<close>: instants are counted from it, so it is \<open>0\<close>.
\<close>

definition zero_time :: go_time where
  "zero_time = 0"

record messageMetadata =
  ReceivedAt :: go_time

record Message =
  Partition :: "32 word"
  Offset :: "64 word"
  Topic :: string
  Value :: string
  Metadata :: messageMetadata

text \<open>
  A Go composite literal leaves every field it does not name at the zero value of the
  field's type.
\<close>

definition zero_messageMetadata :: messageMetadata where
  "zero_messageMetadata = \<lparr>ReceivedAt = zero_time\<rparr>"

subsection \<open>Strings\<close>

text \<open>
  \<^verbatim>\<open>strings.Join(elems, sep)\<close>: the elements with \<open>sep\<close> between neighbours.
\<close>

fun strings_Join :: "string list \<Rightarrow> string \<Rightarrow> string" where
  "strings_Join [] sep = []"
| "strings_Join [x] sep = x"
| "strings_Join (x # y # ys) sep = x @ sep @ strings_Join (y # ys) sep"

text \<open>
  \<^verbatim>\<open>strings.Split(s, sep)\<close> for a separator of one character (the source passes
  \<^verbatim>\<open>","\<close>): the pieces of \<open>s\<close> between the separators; a string without separator
  is its own single piece, the empty string included.
\<close>

fun strings_Split :: "string \<Rightarrow> char \<Rightarrow> string list" where
  "strings_Split [] c = [[]]"
| "strings_Split (x # xs) c =
     (if x = c then [] # strings_Split xs c
      else (case strings_Split xs c of
              [] \<Rightarrow> [[x]]
            | p # ps \<Rightarrow> (x # p) # ps))"

subsection \<open>Prefix-qualified names\<close>

text \<open>
  \<^verbatim>\<open>
  func (kc *Config) topic(topicName string) string {
      topic := ""
      if kc.Prefix != "" {
          topic = strings.Join([]string{kc.Prefix, topicName}, "")
      }
      return topic
  }
  \<close>
\<close>

definition topic :: "Config \<Rightarrow> string \<Rightarrow> string" where
  "topic kc topicName =
     (let topic0 = '''' in
      if Prefix kc \<noteq> '''' then strings_Join [Prefix kc, topicName] '''' else topic0)"

text \<open>
  \<^verbatim>\<open>
  func (kc *Config) group() string {
      group := kc.ConsumerGroup
      if kc.Prefix != "" {
          group = strings.Join([]string{kc.Prefix, group}, "")
      }
      return group
  }
  \<close>
\<close>

definition group :: "Config \<Rightarrow> string" where
  "group kc =
     (let group0 = ConsumerGroup kc in
      if Prefix kc \<noteq> '''' then strings_Join [Prefix kc, group0] '''' else group0)"

section \<open>The process and the libraries it calls\<close>

text \<open>
  Startup either goes on, or ends the process: \<^verbatim>\<open>log.Fatal\<close> (exit status 1 after
  printing the message) or a run-time panic. Every network call of startup is recorded
  in a trace, together with the lines written to the log and to standard output.
\<close>

datatype failure = Fatal string | Panic string

datatype event =
    Ev_Println string
  | Ev_Log string
  | Ev_Dial string
  | Ev_NewConsumer "string list" string "string list"
  | Ev_NewAsyncProducer "string list"

type_synonym 'a proc = "event list \<times> (failure + 'a)"

definition ret :: "'a \<Rightarrow> 'a proc" where
  "ret x = ([], Inr x)"

definition emit :: "event \<Rightarrow> unit proc" where
  "emit e = ([e], Inr ())"

definition log_Fatal :: "string \<Rightarrow> 'a proc" where
  "log_Fatal msg = ([], Inl (Fatal msg))"

definition panic :: "string \<Rightarrow> 'a proc" where
  "panic msg = ([], Inl (Panic msg))"

definition and_then :: "'a proc \<Rightarrow> ('a \<Rightarrow> 'b proc) \<Rightarrow> 'b proc" where
  "and_then m k =
     (case m of
        (t, Inl f) \<Rightarrow> (t, Inl f)
      | (t, Inr x) \<Rightarrow> (case k x of (t', r) \<Rightarrow> (t @ t', r)))"

text \<open>
  The types of the TLS and broker libraries that the source builds or reads.
\<close>

record url_URL =
  Host :: string

record tls_Certificate =
  certPEM :: string
  keyPEM :: string

record tls_Config =
  Certificates :: "tls_Certificate list"
  InsecureSkipVerify :: bool
  RootCAs :: "certificate list"

datatype partition_strategy = StrategyRange | StrategyRoundRobin
datatype initial_offset = OffsetNewest | OffsetOldest
datatype required_acks = NoResponse | WaitForLocal | WaitForAll

text \<open>
  The broker library's configuration, with the sections and the settings that the
  factories write: \<^verbatim>\<open>config.Net.TLS\<close>, \<^verbatim>\<open>config.Group\<close>, \<^verbatim>\<open>config.Consumer\<close>,
  \<^verbatim>\<open>config.Producer\<close> and \<^verbatim>\<open>config.ClientID\<close>.
\<close>

record sarama_Net =
  Net_TLS_Config :: "tls_Config option"
  Net_TLS_Enable :: bool

record sarama_Group =
  Group_PartitionStrategy :: partition_strategy
  Group_Return_Notifications :: bool

record sarama_Consumer =
  Consumer_Return_Errors :: bool
  Consumer_Offsets_CommitInterval :: int
  Consumer_Offsets_Initial :: initial_offset

record sarama_Producer =
  Producer_Return_Errors :: bool
  Producer_RequiredAcks :: required_acks
  Producer_Flush_Messages :: nat

record sarama_Config =
  ClientID :: string
  Net :: sarama_Net
  Group :: sarama_Group
  ConsumerSection :: sarama_Consumer
  ProducerSection :: sarama_Producer

text \<open>A \<^verbatim>\<open>time.Duration\<close> counts nanoseconds.\<close>

definition time_Second :: int where
  "time_Second = 1000000000"

text \<open>
  What the standard library, the TLS stack, the broker client library and the process
  environment answer. None of it is code of this repository, so it is a parameter of
  every function below:
  \<^item> \<open>envdecode_Decode\<close>: the configuration read from the environment, or an error;
  \<^item> \<open>os_Getenv\<close>: the environment;
  \<^item> \<open>base64_DecodeString\<close>, \<open>url_Parse\<close>, \<open>tls_X509KeyPair\<close>: the decoders;
  \<^item> \<open>pem_certificates\<close>: the certificates that parse out of a PEM bundle;
  \<^item> \<open>tls_Dial\<close>: the peer certificates of a completed handshake, or the dial error;
  \<^item> \<open>x509_Verify\<close>: the verdict of chain verification of a certificate against a
    pool of roots (\<open>None\<close>: a chain to a root of the pool was found);
  \<^item> \<open>time_Now\<close>: the \<open>n\<close>-th reading of the clock; \<open>time_Format\<close>: a time rendered
    under a layout;
  \<^item> \<open>cluster_NewConfig\<close>, \<open>sarama_NewConfig\<close>: the default configurations;
    \<open>config_Validate\<close>, \<open>cluster_NewConsumer\<close>, \<open>sarama_NewAsyncProducer\<close>: the error
    of validation and construction, if any.

  The answers are functions of the arguments: within one run, the same call gets the
  same answer.
\<close>

record std_library =
  Getenv :: "string \<Rightarrow> string"
  DecodeString :: "string \<Rightarrow> error + string"
  Parse :: "string \<Rightarrow> error + url_URL"
  Now :: "nat \<Rightarrow> go_time"
  Format :: "go_time \<Rightarrow> string \<Rightarrow> string"

record tls_library =
  X509KeyPair :: "string \<Rightarrow> string \<Rightarrow> error + tls_Certificate"
  CertificatesFromPEM :: "string \<Rightarrow> certificate list"
  Dial :: "string \<Rightarrow> tls_Config \<Rightarrow> error + certificate list"
  Verify :: "certificate \<Rightarrow> certificate list \<Rightarrow> error option"

record kafka_library =
  NewClusterConfig :: sarama_Config
  NewConfig :: sarama_Config
  Validate :: "sarama_Config \<Rightarrow> error option"
  NewConsumer :: "string list \<Rightarrow> string \<Rightarrow> string list \<Rightarrow> sarama_Config \<Rightarrow> error option"
  NewAsyncProducer :: "string list \<Rightarrow> sarama_Config \<Rightarrow> error option"

record library =
  envdecode_Decode :: "error + Config"
  std :: std_library
  tls :: tls_library
  kafka :: kafka_library

abbreviation os_Getenv :: "library \<Rightarrow> string \<Rightarrow> string" where
  "os_Getenv L \<equiv> Getenv (std L)"

abbreviation base64_DecodeString :: "library \<Rightarrow> string \<Rightarrow> error + string" where
  "base64_DecodeString L \<equiv> DecodeString (std L)"

abbreviation url_Parse :: "library \<Rightarrow> string \<Rightarrow> error + url_URL" where
  "url_Parse L \<equiv> Parse (std L)"

abbreviation time_Now :: "library \<Rightarrow> nat \<Rightarrow> go_time" where
  "time_Now L \<equiv> Now (std L)"

abbreviation time_Format :: "library \<Rightarrow> go_time \<Rightarrow> string \<Rightarrow> string" where
  "time_Format L \<equiv> Format (std L)"

abbreviation tls_X509KeyPair :: "library \<Rightarrow> string \<Rightarrow> string \<Rightarrow> error + tls_Certificate" where
  "tls_X509KeyPair L \<equiv> X509KeyPair (tls L)"

abbreviation pem_certificates :: "library \<Rightarrow> string \<Rightarrow> certificate list" where
  "pem_certificates L \<equiv> CertificatesFromPEM (tls L)"

abbreviation tls_Dial :: "library \<Rightarrow> string \<Rightarrow> tls_Config \<Rightarrow> error + certificate list" where
  "tls_Dial L \<equiv> Dial (tls L)"

abbreviation x509_Verify :: "library \<Rightarrow> certificate \<Rightarrow> certificate list \<Rightarrow> error option" where
  "x509_Verify L \<equiv> Verify (tls L)"

abbreviation cluster_NewConfig :: "library \<Rightarrow> sarama_Config" where
  "cluster_NewConfig L \<equiv> NewClusterConfig (kafka L)"

abbreviation sarama_NewConfig :: "library \<Rightarrow> sarama_Config" where
  "sarama_NewConfig L \<equiv> NewConfig (kafka L)"

abbreviation config_Validate :: "library \<Rightarrow> sarama_Config \<Rightarrow> error option" where
  "config_Validate L \<equiv> Validate (kafka L)"

abbreviation cluster_NewConsumer ::
  "library \<Rightarrow> string list \<Rightarrow> string \<Rightarrow> string list \<Rightarrow> sarama_Config \<Rightarrow> error option" where
  "cluster_NewConsumer L \<equiv> NewConsumer (kafka L)"

abbreviation sarama_NewAsyncProducer ::
  "library \<Rightarrow> string list \<Rightarrow> sarama_Config \<Rightarrow> error option" where
  "sarama_NewAsyncProducer L \<equiv> NewAsyncProducer (kafka L)"

text \<open>
  \<^verbatim>\<open>pool.AppendCertsFromPEM(pem)\<close> appends the certificates found in \<open>pem\<close> to the pool
  and reports whether any certificate was parsed.
\<close>

definition AppendCertsFromPEM ::
  "library \<Rightarrow> certificate list \<Rightarrow> string \<Rightarrow> certificate list \<times> bool" where
  "AppendCertsFromPEM L pool pem = (pool @ pem_certificates L pem, pem_certificates L pem \<noteq> [])"

text \<open>A slice of strings under the verb \<^verbatim>\<open>%s\<close>.\<close>

definition fmt_strings :: "string list \<Rightarrow> string" where
  "fmt_strings xs = ''['' @ strings_Join xs '' '' @ '']''"

section \<open>Startup: kafka.go\<close>

text \<open>
  \<^verbatim>\<open>
  func decodeBase64(base64Data string) string {
      value, err := base64.StdEncoding.DecodeString(base64Data)
      if err != nil { log.Fatal("Cannot parse base64") }
      return string(value)
  }
  \<close>
\<close>

definition decodeBase64 :: "library \<Rightarrow> string \<Rightarrow> string proc" where
  "decodeBase64 L base64Data =
     (case base64_DecodeString L base64Data of
        Inl err \<Rightarrow> log_Fatal ''Cannot parse base64''
      | Inr v \<Rightarrow> ret v)"

text \<open>
  \<^verbatim>\<open>createTLSConfig\<close>: a trusted-root bundle that does not parse is logged and the
  function goes on; a client key pair that does not parse is fatal.
\<close>

definition createTLSConfig :: "library \<Rightarrow> Config \<Rightarrow> tls_Config proc" where
  "createTLSConfig L kc =
     (case AppendCertsFromPEM L [] (TrustedCert kc) of (roots, ok) \<Rightarrow>
      and_then (if \<not> ok then emit (Ev_Log (''Unable to parse Root Cert: '' @ TrustedCert kc))
                else ret ()) (\<lambda>_.
      case tls_X509KeyPair L (ClientCert kc) (ClientCertKey kc) of
        Inl err \<Rightarrow> log_Fatal err
      | Inr cert \<Rightarrow>
          ret \<lparr>Certificates = [cert], InsecureSkipVerify = True, RootCAs = roots\<rparr>))"

text \<open>
  \<^verbatim>\<open>
  func (kc *Config) brokerAddresses() []string {
      urls := strings.Split(kc.URL, ",")
      addrs := make([]string, len(urls))
      for i, v := range urls {
          u, err := url.Parse(v)
          if err != nil { log.Fatal(err) }
          addrs[i] = u.Host
      }
      return addrs
  }
  \<close>
  The loop fills the slots in order and ends the process at the first entry that does
  not parse.
\<close>

fun parse_hosts :: "library \<Rightarrow> string list \<Rightarrow> string list proc" where
  "parse_hosts L [] = ret []"
| "parse_hosts L (v # vs) =
     (case url_Parse L v of
        Inl err \<Rightarrow> log_Fatal err
      | Inr u \<Rightarrow> and_then (parse_hosts L vs) (\<lambda>addrs. ret (Host u # addrs)))"

definition brokerAddresses :: "library \<Rightarrow> Config \<Rightarrow> string list proc" where
  "brokerAddresses L kc = parse_hosts L (strings_Split (URL kc) CHR '','')"

text \<open>
  \<^verbatim>\<open>
  func verifyServerCert(tc *tls.Config, caCert string, url string) (bool, error) {
      conn, err := tls.Dial("tcp", url, tc)
      if err != nil { return false, err }
      serverCert := conn.ConnectionState().PeerCertificates[0]
      roots := x509.NewCertPool()
      ok := roots.AppendCertsFromPEM([]byte(caCert))
      if !ok { return false, errors.New("Unable to parse Trusted Cert") }
      opts := x509.VerifyOptions{Roots: roots}
      if _, err := serverCert.Verify(opts); err != nil {
          log.Println("Unable to verify Server Cert")
          return false, err
      }
      return true, nil
  }
  \<close>
  Indexing an empty slice is a run-time panic.
\<close>

definition verifyServerCert ::
  "library \<Rightarrow> tls_Config \<Rightarrow> string \<Rightarrow> string \<Rightarrow> (bool \<times> error option) proc" where
  "verifyServerCert L tc caCert url =
     and_then (emit (Ev_Dial url)) (\<lambda>_.
     case tls_Dial L url tc of
       Inl err \<Rightarrow> ret (False, Some err)
     | Inr peerCertificates \<Rightarrow>
         (case peerCertificates of
            [] \<Rightarrow> panic ''index out of range [0] with length 0''
          | serverCert # _ \<Rightarrow>
              (case AppendCertsFromPEM L [] caCert of (roots, ok) \<Rightarrow>
               if \<not> ok then ret (False, Some ''Unable to parse Trusted Cert'')
               else (case x509_Verify L serverCert roots of
                       Some err \<Rightarrow>
                         and_then (emit (Ev_Log ''Unable to verify Server Cert''))
                           (\<lambda>_. ret (False, Some err))
                     | None \<Rightarrow> ret (True, None)))))"

text \<open>
  The verification loop of \<^verbatim>\<open>Connect\<close>:
  \<^verbatim>\<open>
  for _, b := range brokerAddrs {
      ok, err := verifyServerCert(tlsConfig, config.TrustedCert, b)
      if err != nil { log.Fatal("Get Server Cert Error: ", err) }
      if !ok { log.Fatalf("Broker %s has invalid certificate!", b) }
  }
  \<close>
\<close>

fun verify_brokers :: "library \<Rightarrow> tls_Config \<Rightarrow> string \<Rightarrow> string list \<Rightarrow> unit proc" where
  "verify_brokers L tc caCert [] = ret ()"
| "verify_brokers L tc caCert (b # bs) =
     and_then (verifyServerCert L tc caCert b) (\<lambda>(ok, err).
     case err of
       Some e \<Rightarrow> log_Fatal (''Get Server Cert Error: '' @ e)
     | None \<Rightarrow>
         if \<not> ok then log_Fatal (''Broker '' @ b @ '' has invalid certificate!'')
         else verify_brokers L tc caCert bs)"

text \<open>
  The handles record what they were constructed with.
\<close>

record Consumer_handle =
  consumer_brokers :: "string list"
  consumer_group :: string
  consumer_topics :: "string list"
  consumer_config :: sarama_Config

record Producer_handle =
  producer_brokers :: "string list"
  producer_config :: sarama_Config

record Client =
  Producer :: "Producer_handle option"
  Consumer :: "Consumer_handle option"
  config :: "Config option"

text \<open>
  The client identifier, as both factories compute it:
  \<^verbatim>\<open>strings.Join([]string{kc.ConsumerGroup, time.Now().Format("20200102150405")}, "-")\<close>
\<close>

definition creation_timestamp :: "library \<Rightarrow> go_time \<Rightarrow> string" where
  "creation_timestamp L now = time_Format L now ''20200102150405''"

definition clientID :: "library \<Rightarrow> Config \<Rightarrow> go_time \<Rightarrow> string" where
  "clientID L kc now = strings_Join [ConsumerGroup kc, creation_timestamp L now] ''-''"

definition createKafkaConsumer ::
  "library \<Rightarrow> go_time \<Rightarrow> Config \<Rightarrow> string list \<Rightarrow> tls_Config \<Rightarrow> Consumer_handle proc" where
  "createKafkaConsumer L now kc brokers tc =
     (let config0 = cluster_NewConfig L;
          config = config0
            \<lparr>Net := (Net config0)
               \<lparr>Net_TLS_Config := Some tc,
                Net_TLS_Enable := True\<rparr>,
             Group := (Group config0)
               \<lparr>Group_PartitionStrategy := StrategyRoundRobin,
                Group_Return_Notifications := True\<rparr>,
             ClientID := clientID L kc now,
             ConsumerSection := (ConsumerSection config0)
               \<lparr>Consumer_Return_Errors := True,
                Consumer_Offsets_CommitInterval := time_Second,
                Consumer_Offsets_Initial := OffsetNewest\<rparr>\<rparr>;
          topics = [topic kc ''order_events'']
      in and_then (emit (Ev_Log (''Consuming topic '' @ fmt_strings topics
                                  @ '' on brokers: '' @ fmt_strings brokers))) (\<lambda>_.
         case config_Validate L config of
           Some err \<Rightarrow> log_Fatal err
         | None \<Rightarrow>
             and_then (emit (Ev_NewConsumer brokers (group kc) topics)) (\<lambda>_.
             case cluster_NewConsumer L brokers (group kc) topics config of
               Some err \<Rightarrow> log_Fatal err
             | None \<Rightarrow>
                 ret \<lparr>consumer_brokers = brokers, consumer_group = group kc,
                      consumer_topics = topics, consumer_config = config\<rparr>)))"

definition createKafkaProducer ::
  "library \<Rightarrow> go_time \<Rightarrow> Config \<Rightarrow> string list \<Rightarrow> tls_Config \<Rightarrow> Producer_handle proc" where
  "createKafkaProducer L now kc brokers tc =
     (let config0 = sarama_NewConfig L;
          config = config0
            \<lparr>Net := (Net config0)
               \<lparr>Net_TLS_Config := Some tc,
                Net_TLS_Enable := True\<rparr>,
             ProducerSection := (ProducerSection config0)
               \<lparr>Producer_Return_Errors := True,
                Producer_RequiredAcks := WaitForAll,
                Producer_Flush_Messages := 1\<rparr>,
             ClientID := clientID L kc now\<rparr>
      in case config_Validate L config of
           Some err \<Rightarrow> log_Fatal err
         | None \<Rightarrow>
             and_then (emit (Ev_NewAsyncProducer brokers)) (\<lambda>_.
             case sarama_NewAsyncProducer L brokers config of
               Some err \<Rightarrow> log_Fatal err
             | None \<Rightarrow> ret \<lparr>producer_brokers = brokers, producer_config = config\<rparr>))"

text \<open>
  \<^verbatim>\<open>Connect\<close>: decode the environment, decode the three PEM fields from base64 outside
  production, build the TLS configuration, parse the broker list, verify every broker,
  then construct the consumer and the producer.
\<close>

definition MustDecode :: "library \<Rightarrow> Config proc" where
  "MustDecode L = (case envdecode_Decode L of Inl err \<Rightarrow> log_Fatal err | Inr c \<Rightarrow> ret c)"

definition decode_material :: "library \<Rightarrow> Config \<Rightarrow> Config proc" where
  "decode_material L config0 =
     (if os_Getenv L ''ENVIRONMENT'' \<noteq> ''production'' then
        and_then (decodeBase64 L (TrustedCert config0)) (\<lambda>trusted.
        and_then (decodeBase64 L (ClientCertKey config0)) (\<lambda>key.
        and_then (decodeBase64 L (ClientCert config0)) (\<lambda>cert.
        ret (config0\<lparr>TrustedCert := trusted, ClientCertKey := key, ClientCert := cert\<rparr>))))
      else ret config0)"

definition construct_clients ::
  "library \<Rightarrow> Client \<Rightarrow> Config \<Rightarrow> string list \<Rightarrow> tls_Config \<Rightarrow> Client proc" where
  "construct_clients L kc cfg brokerAddrs tlsConfig =
     and_then (createKafkaConsumer L (time_Now L 0) cfg brokerAddrs tlsConfig) (\<lambda>consumer.
     and_then (createKafkaProducer L (time_Now L 1) cfg brokerAddrs tlsConfig) (\<lambda>producer.
     ret (kc\<lparr>Consumer := Some consumer, Producer := Some producer, config := Some cfg\<rparr>)))"

definition load_config :: "library \<Rightarrow> Config proc" where
  "load_config L = and_then (MustDecode L) (\<lambda>config0. decode_material L config0)"

definition Connect :: "library \<Rightarrow> Client \<Rightarrow> Client proc" where
  "Connect L kc =
     and_then (emit (Ev_Println ''Connecting to Kafka brokers...'')) (\<lambda>_.
     and_then (load_config L) (\<lambda>cfg.
     and_then (createTLSConfig L cfg) (\<lambda>tlsConfig.
     and_then (brokerAddresses L cfg) (\<lambda>brokerAddrs.
     and_then (verify_brokers L tlsConfig (TrustedCert cfg) brokerAddrs) (\<lambda>_.
     and_then (emit (Ev_Log ''All broker server certificates are valid!'')) (\<lambda>_.
     construct_clients L kc cfg brokerAddrs tlsConfig))))))"

text \<open>An event that constructs a client.\<close>

fun constructs :: "event \<Rightarrow> bool" where
  "constructs (Ev_NewConsumer _ _ _) = True"
| "constructs (Ev_NewAsyncProducer _) = True"
| "constructs _ = False"

section \<open>The supervision loops\<close>

text \<open>
  The values the loops read. A receive yields \<open>None\<close> for \<^verbatim>\<open>nil\<close>: a \<^verbatim>\<open>nil\<close> that was
  sent, or the zero value that a closed channel delivers at once, every time it is read.
  The fields hold the printed form of what the library puts there.
\<close>

record cluster_Notification =
  notification_Type :: string
  notification_Current :: string

record ProducerMessage =
  success_Topic :: string
  success_Value :: string

text \<open>Which case of the \<^verbatim>\<open>select\<close> fired in one iteration, and with what.\<close>

datatype notifications_select =
    Recv_Notifications "cluster_Notification option"
  | Recv_Successes "ProducerMessage option"

datatype errors_select =
    Recv_Consumer_Errors "error option"
  | Recv_Producer_Errors "error option"

text \<open>
  The body of the \<^verbatim>\<open>for { select { ... } }\<close> of \<^verbatim>\<open>ShowNotifications\<close>: the lines it
  prints. \<^verbatim>\<open>fmt.Println\<close> puts a space between its operands.
\<close>

fun ShowNotifications_body :: "notifications_select \<Rightarrow> string list" where
  "ShowNotifications_body (Recv_Notifications (Some notification)) =
     [''Notification Type:  '' @ notification_Type notification,
      ''Notification Current:  '' @ notification_Current notification]"
| "ShowNotifications_body (Recv_Notifications None) = []"
| "ShowNotifications_body (Recv_Successes (Some success)) =
     [''Successfull delivery to:  '' @ success_Topic success,
      ''Message:  '' @ success_Value success]"
| "ShowNotifications_body (Recv_Successes None) = []"

fun ShowErrors_body :: "errors_select \<Rightarrow> string list" where
  "ShowErrors_body (Recv_Consumer_Errors (Some err)) = [''Error occoured:  '' @ err]"
| "ShowErrors_body (Recv_Consumer_Errors None) = []"
| "ShowErrors_body (Recv_Producer_Errors (Some err)) = [''Error occoured:  '' @ err]"
| "ShowErrors_body (Recv_Producer_Errors None) = []"

text \<open>
  The loops themselves, over the stream of what their \<^verbatim>\<open>select\<close> receives. The result is
  the lines printed by the time the function returns, \<open>None\<close> when it does not return.
  Neither loop has a \<^verbatim>\<open>break\<close> or a \<^verbatim>\<open>return\<close>.
\<close>

partial_function (option) ShowNotifications_loop ::
  "notifications_select stream \<Rightarrow> string list \<Rightarrow> string list option" where
  "ShowNotifications_loop evs printed =
     ShowNotifications_loop (stl evs) (printed @ ShowNotifications_body (shd evs))"

definition ShowNotifications :: "notifications_select stream \<Rightarrow> string list option" where
  "ShowNotifications evs =
     ShowNotifications_loop evs [''Starting Kafka notifications go routine...'']"

partial_function (option) ShowErrors_loop ::
  "errors_select stream \<Rightarrow> string list \<Rightarrow> string list option" where
  "ShowErrors_loop evs printed =
     ShowErrors_loop (stl evs) (printed @ ShowErrors_body (shd evs))"

definition ShowErrors :: "errors_select stream \<Rightarrow> string list option" where
  "ShowErrors evs = ShowErrors_loop evs [''Starting Kafka Errors go routine...'']"

text \<open>
  Once a source channel is closed, every receive from it yields \<^verbatim>\<open>nil\<close>. With all
  sources of a loop closed, its \<^verbatim>\<open>select\<close> receives nothing but \<^verbatim>\<open>nil\<close>, from one
  case or the other.
\<close>

definition notifications_all_closed :: "notifications_select stream" where
  "notifications_all_closed =
     cycle [Recv_Notifications None, Recv_Successes None]"

definition errors_all_closed :: "errors_select stream" where
  "errors_all_closed =
     cycle [Recv_Consumer_Errors None, Recv_Producer_Errors None]"

section \<open>The main package\<close>

text \<open>
  The fields of the broker library's consumer record that the dispatcher reads.
\<close>

record ConsumerMessage =
  msg_Partition :: "32 word"
  msg_Offset :: "64 word"
  msg_Topic :: string
  msg_Value :: string

text \<open>The verb \<^verbatim>\<open>%d\<close>: a signed integer in decimal.\<close>

fun fmt_nat :: "nat \<Rightarrow> string" where
  "fmt_nat n =
     (if n < 10 then [char_of (48 + n)]
      else fmt_nat (n div 10) @ [char_of (48 + n mod 10)])"

definition fmt_d :: "int \<Rightarrow> string" where
  "fmt_d i = (if i < 0 then ''-'' @ fmt_nat (nat (- i)) else fmt_nat (nat i))"

text \<open>
  \<^verbatim>\<open>
  func processMessage(msg *sarama.ConsumerMessage, kc kafka.Client) {
      message := kafka.Message{
          Partition: msg.Partition,
          Offset:    msg.Offset,
          Topic:     msg.Topic,
          Value:     string(msg.Value),
      }
      fmt.Printf("Message Received:\nTopic: %s\nPartition: %d\nOffset: %d\n",
          message.Topic, message.Partition, message.Offset)
  }
  \<close>
  The literal names four of the five fields of \<open>Message\<close>. The model returns the message
  built and the text printed.
\<close>

definition new_Message :: "ConsumerMessage \<Rightarrow> Message" where
  "new_Message msg =
     \<lparr>Partition = msg_Partition msg,
      Offset = msg_Offset msg,
      Topic = msg_Topic msg,
      Value = msg_Value msg,
      Metadata = zero_messageMetadata\<rparr>"

definition processMessage :: "ConsumerMessage \<Rightarrow> Message \<times> string" where
  "processMessage msg =
     (let message = new_Message msg
      in (message,
          ''Message Received:'' @ [CHR 0x0A]
          @ ''Topic: '' @ Topic message @ [CHR 0x0A]
          @ ''Partition: '' @ fmt_d (sint (Partition message)) @ [CHR 0x0A]
          @ ''Offset: '' @ fmt_d (sint (Offset message)) @ [CHR 0x0A]))"

text \<open>
  The foreground loop of \<^verbatim>\<open>main\<close> over the records the stream delivers until it is
  closed: one handling unit per record that is not \<^verbatim>\<open>nil\<close>, listed in the order they are
  started.
\<close>

fun dispatch :: "ConsumerMessage option list \<Rightarrow> (Message \<times> string) list" where
  "dispatch [] = []"
| "dispatch (None # ms) = dispatch ms"
| "dispatch (Some m # ms) = processMessage m # dispatch ms"

subsection \<open>The two close paths of main\<close>

text \<open>
  The goroutine started for the termination signal runs, once the signal arrives,
  \<^verbatim>\<open>kafkaClient.Producer.Close(); kafkaClient.Consumer.Close(); os.Exit(1)\<close>.
  The deferred calls of \<^verbatim>\<open>main\<close> run in the reverse order of their \<^verbatim>\<open>defer\<close>
  statements once the message loop ends: \<^verbatim>\<open>Consumer.Close()\<close>, then
  \<^verbatim>\<open>Producer.Close()\<close>; then \<^verbatim>\<open>main\<close> returns, which ends the process with status 0.
\<close>

datatype call = Producer_Close | Consumer_Close | os_Exit int

definition signal_handler :: "call list" where
  "signal_handler = [Producer_Close, Consumer_Close, os_Exit 1]"

definition deferred_cleanup :: "call list" where
  "deferred_cleanup = [Consumer_Close, Producer_Close, os_Exit 0]"

text \<open>
  The process counts the \<^verbatim>\<open>Close\<close> calls that reach each handle; nothing runs after
  the exit.
\<close>

record process_state =
  producer_close_calls :: nat
  consumer_close_calls :: nat
  exit_status :: "int option"

definition running :: process_state where
  "running = \<lparr>producer_close_calls = 0, consumer_close_calls = 0, exit_status = None\<rparr>"

fun exec_call :: "process_state \<Rightarrow> call \<Rightarrow> process_state" where
  "exec_call s c =
     (if exit_status s \<noteq> None then s
      else (case c of
              Producer_Close \<Rightarrow> s\<lparr>producer_close_calls := Suc (producer_close_calls s)\<rparr>
            | Consumer_Close \<Rightarrow> s\<lparr>consumer_close_calls := Suc (consumer_close_calls s)\<rparr>
            | os_Exit code \<Rightarrow> s\<lparr>exit_status := Some code\<rparr>))"

definition exec_calls :: "call list \<Rightarrow> process_state" where
  "exec_calls cs = foldl exec_call running cs"

text \<open>
  The two paths run in different goroutines: every merge of the two call sequences that
  keeps the order within each is a schedule.
\<close>

fun interleavings :: "'a list \<Rightarrow> 'a list \<Rightarrow> 'a list list" where
  "interleavings [] ys = [ys]"
| "interleavings (x # xs) [] = [x # xs]"
| "interleavings (x # xs) (y # ys) =
     map ((#) x) (interleavings xs (y # ys)) @ map ((#) y) (interleavings (x # xs) ys)"

definition close_schedules :: "call list list" where
  "close_schedules = interleavings signal_handler deferred_cleanup"

section \<open>A concrete environment\<close>

text \<open>
  One environment on which the definitions can be run: brokers \<open>b1\<close> and \<open>b2\<close> present
  a certificate issued by the configured root, \<open>b3\<close> a self-signed one, \<open>b4\<close> completes
  the handshake with no certificate at all, and nothing else answers. The URL parser
  takes what follows the scheme \<^verbatim>\<open>kafka+ssl://\<close>.
\<close>

definition example_config :: Config where
  "example_config =
     \<lparr>URL = ''kafka+ssl://b1:9096,kafka+ssl://b2:9096'',
      TrustedCert = ''ROOT-PEM'',
      ClientCertKey = ''KEY-PEM'',
      ClientCert = ''CERT-PEM'',
      Prefix = ''staging.'',
      ConsumerGroup = ''heroku-kafka-demo-go''\<rparr>"

definition example_sarama_Config :: sarama_Config where
  "example_sarama_Config =
     \<lparr>ClientID = ''sarama'',
      Net = \<lparr>Net_TLS_Config = None, Net_TLS_Enable = False\<rparr>,
      Group = \<lparr>Group_PartitionStrategy = StrategyRange,
               Group_Return_Notifications = False\<rparr>,
      ConsumerSection = \<lparr>Consumer_Return_Errors = False,
                         Consumer_Offsets_CommitInterval = time_Second,
                         Consumer_Offsets_Initial = OffsetNewest\<rparr>,
      ProducerSection = \<lparr>Producer_Return_Errors = True,
                         Producer_RequiredAcks = WaitForLocal,
                         Producer_Flush_Messages = 0\<rparr>\<rparr>"

definition example_Dial :: "string \<Rightarrow> tls_Config \<Rightarrow> error + certificate list" where
  "example_Dial url tc =
     (if url = ''b1:9096'' \<or> url = ''b2:9096'' then Inr [''leaf issued by root'']
      else if url = ''b3:9096'' then Inr [''self-signed leaf'']
      else if url = ''b4:9096'' then Inr []
      else Inl ''dial tcp: connection refused'')"

definition example_Verify :: "certificate \<Rightarrow> certificate list \<Rightarrow> error option" where
  "example_Verify c roots =
     (if c = ''leaf issued by root'' \<and> ''root'' \<in> set roots then None
      else Some ''x509: certificate signed by unknown authority'')"

definition example_Parse :: "string \<Rightarrow> error + url_URL" where
  "example_Parse v =
     (if take 12 v = ''kafka+ssl://'' then Inr \<lparr>Host = drop 12 v\<rparr>
      else Inl ''parse: missing protocol scheme'')"

definition example_Format :: "go_time \<Rightarrow> string \<Rightarrow> string" where
  "example_Format t layout =
     (if t = 1000 then ''t1000'' else if t = 1001 then ''t1001'' else ''t'')"

definition example_library :: library where
  "example_library =
     \<lparr>envdecode_Decode = Inr example_config,
      std = \<lparr>Getenv = (\<lambda>name. if name = ''ENVIRONMENT'' then ''production'' else []),
             DecodeString = Inr,
             Parse = example_Parse,
             Now = (\<lambda>n. 1000 + int n),
             Format = example_Format\<rparr>,
      tls = \<lparr>X509KeyPair = (\<lambda>c k. Inr \<lparr>certPEM = c, keyPEM = k\<rparr>),
             CertificatesFromPEM = (\<lambda>pem. if pem = ''ROOT-PEM'' then [''root''] else []),
             Dial = example_Dial,
             Verify = example_Verify\<rparr>,
      kafka = \<lparr>NewClusterConfig = example_sarama_Config,
               NewConfig = example_sarama_Config,
               Validate = (\<lambda>c. None),
               NewConsumer = (\<lambda>brokers grp topics c. None),
               NewAsyncProducer = (\<lambda>brokers c. None)\<rparr>\<rparr>"

definition example_tls_Config :: tls_Config where
  "example_tls_Config =
     \<lparr>Certificates = [\<lparr>certPEM = ''CERT-PEM'', keyPEM = ''KEY-PEM''\<rparr>],
      InsecureSkipVerify = True,
      RootCAs = [''root'']\<rparr>"

definition new_Client :: Client where
  "new_Client = \<lparr>Producer = None, Consumer = None, config = None\<rparr>"

text \<open>
  The handles that the factories return in this environment, under the prefix
  \<^verbatim>\<open>staging.\<close> of \<open>example_config\<close>, for a consumer created at time 1000 and a
  producer created at time 1001.
\<close>

definition example_consumer :: Consumer_handle where
  "example_consumer =
     \<lparr>consumer_brokers = [''b1:9096'', ''b2:9096''],
      consumer_group = ''staging.heroku-kafka-demo-go'',
      consumer_topics = [''staging.order_events''],
      consumer_config = example_sarama_Config
        \<lparr>ClientID := ''heroku-kafka-demo-go-t1000'',
         Net := \<lparr>Net_TLS_Config = Some example_tls_Config, Net_TLS_Enable = True\<rparr>,
         Group := \<lparr>Group_PartitionStrategy = StrategyRoundRobin,
                   Group_Return_Notifications = True\<rparr>,
         ConsumerSection := \<lparr>Consumer_Return_Errors = True,
                             Consumer_Offsets_CommitInterval = time_Second,
                             Consumer_Offsets_Initial = OffsetNewest\<rparr>\<rparr>\<rparr>"

definition example_producer :: Producer_handle where
  "example_producer =
     \<lparr>producer_brokers = [''b1:9096'', ''b2:9096''],
      producer_config = example_sarama_Config
        \<lparr>ClientID := ''heroku-kafka-demo-go-t1001'',
         Net := \<lparr>Net_TLS_Config = Some example_tls_Config, Net_TLS_Enable = True\<rparr>,
         ProducerSection := \<lparr>Producer_Return_Errors = True,
                             Producer_RequiredAcks = WaitForAll,
                             Producer_Flush_Messages = 1\<rparr>\<rparr>\<rparr>"

text \<open>
  Two variations: a broker list whose second entry is the broker with the self-signed
  certificate, and a trusted-root bundle out of which no certificate parses.
\<close>

definition failing_config :: Config where
  "failing_config =
     example_config\<lparr>URL := ''kafka+ssl://b1:9096,kafka+ssl://b3:9096,kafka+ssl://b2:9096''\<rparr>"

definition failing_library :: library where
  "failing_library = example_library\<lparr>envdecode_Decode := Inr failing_config\<rparr>"

definition unparsed_config :: Config where
  "unparsed_config = example_config\<lparr>TrustedCert := ''garbage''\<rparr>"

definition unparsed_library :: library where
  "unparsed_library = example_library\<lparr>envdecode_Decode := Inr unparsed_config\<rparr>"

section \<open>Properties\<close>

subsection \<open>Sequencing\<close>

lemma and_then_fst:
  "fst (and_then m k) = (case snd m of Inl f \<Rightarrow> fst m | Inr x \<Rightarrow> fst m @ fst (k x))"
  by (auto simp: and_then_def split: prod.splits sum.splits)

lemma and_then_snd:
  "snd (and_then m k) = (case snd m of Inl f \<Rightarrow> Inl f | Inr x \<Rightarrow> snd (k x))"
  by (auto simp: and_then_def split: prod.splits sum.splits)

subsection \<open>Prefix-qualified names\<close>

lemma group_qualified:
  "group kc = (if Prefix kc = '''' then ConsumerGroup kc else Prefix kc @ ConsumerGroup kc)"
  by (simp add: group_def)

lemma topic_prefixed: "Prefix kc \<noteq> '''' \<Longrightarrow> topic kc topicName = Prefix kc @ topicName"
  by (simp add: topic_def)

text \<open>
  Claim C2: with an empty prefix the qualified name is the base name unchanged, with a
  prefix it is the prefix followed directly by the base name, for the topic and for the
  group alike. \<open>group\<close> does so (\<open>group_qualified\<close>), and so does \<open>topic\<close> under a prefix
  (\<open>topic_prefixed\<close>). Without a prefix \<open>topic\<close> starts from the empty string instead of
  the base name: the configuration below, with its prefix emptied, subscribes to the
  topic \<^verbatim>\<open>""\<close>, not to \<^verbatim>\<open>"order_events"\<close>, while its group keeps its base name.
\<close>

theorem topic_without_prefix_is_empty:
  "topic (example_config\<lparr>Prefix := ''''\<rparr>) ''order_events'' = ''''
   \<and> group (example_config\<lparr>Prefix := ''''\<rparr>) = ''heroku-kafka-demo-go''"
  by (simp add: topic_def group_def example_config_def)

subsection \<open>Certificate verification of one endpoint\<close>

text \<open>
  Claim C10: \<open>verifyServerCert\<close> reads element 0 of the peer certificates without a
  guard. It panics exactly when the dial succeeds with an empty list of peer
  certificates; in every other case it returns.
\<close>

theorem verifyServerCert_panics_iff_no_peer_certificate:
  "(\<exists>msg. snd (verifyServerCert L tc caCert url) = Inl (Panic msg))
     \<longleftrightarrow> tls_Dial L url tc = Inr []"
  by (auto simp: verifyServerCert_def and_then_snd emit_def ret_def panic_def
                 AppendCertsFromPEM_def
           split: sum.splits list.splits option.splits)

theorem verifyServerCert_panics_witness:
  "tls_Dial example_library ''b4:9096'' example_tls_Config = Inr []
   \<and> (\<exists>msg. snd (verifyServerCert example_library example_tls_Config ''ROOT-PEM'' ''b4:9096'')
              = Inl (Panic msg))"
  using verifyServerCert_panics_iff_no_peer_certificate
          [of example_library example_tls_Config "''ROOT-PEM''" "''b4:9096''"]
  by (simp add: example_library_def example_Dial_def)

text \<open>
  Claim C3: for the pool of roots parsed from the trusted bundle and the first
  certificate the server presented in the handshake, \<open>verifyServerCert\<close> answers
  \<open>(true, nil)\<close> when chain verification of that certificate against that pool
  succeeds, and \<open>(false, err)\<close> with the verification error when it does not; a bundle
  out of which no root parses is a failure too. The verdict of chain verification is
  the library's (\<open>x509_Verify\<close>); the pool it is given is the one built from the
  bundle passed in, and the certificate is the server's leaf.
\<close>

theorem verifyServerCert_verdict:
  assumes "tls_Dial L url tc = Inr (serverCert # rest)"
  shows "(pem_certificates L caCert \<noteq> []
            \<and> x509_Verify L serverCert (pem_certificates L caCert) = None
          \<longrightarrow> snd (verifyServerCert L tc caCert url) = Inr (True, None))
       \<and> (\<forall>err. pem_certificates L caCert \<noteq> []
            \<and> x509_Verify L serverCert (pem_certificates L caCert) = Some err
          \<longrightarrow> snd (verifyServerCert L tc caCert url) = Inr (False, Some err))
       \<and> (pem_certificates L caCert = []
          \<longrightarrow> snd (verifyServerCert L tc caCert url)
                = Inr (False, Some ''Unable to parse Trusted Cert''))"
  using assms
  by (auto simp: verifyServerCert_def and_then_snd emit_def ret_def panic_def
                 AppendCertsFromPEM_def
           split: sum.splits list.splits option.splits)

theorem verifyServerCert_verdict_witness:
  "tls_Dial example_library ''b1:9096'' example_tls_Config = Inr [''leaf issued by root'']
   \<and> snd (verifyServerCert example_library example_tls_Config ''ROOT-PEM'' ''b1:9096'')
       = Inr (True, None)
   \<and> tls_Dial example_library ''b3:9096'' example_tls_Config = Inr [''self-signed leaf'']
   \<and> snd (verifyServerCert example_library example_tls_Config ''ROOT-PEM'' ''b3:9096'')
       = Inr (False, Some ''x509: certificate signed by unknown authority'')
   \<and> snd (verifyServerCert example_library example_tls_Config ''garbage'' ''b1:9096'')
       = Inr (False, Some ''Unable to parse Trusted Cert'')"
proof -
  have d1: "tls_Dial example_library ''b1:9096'' example_tls_Config
              = Inr [''leaf issued by root'']"
    by (simp add: example_library_def example_Dial_def)
  have d3: "tls_Dial example_library ''b3:9096'' example_tls_Config = Inr [''self-signed leaf'']"
    by (simp add: example_library_def example_Dial_def)
  show ?thesis
    using d1 d3
      verifyServerCert_verdict [OF d1, of "''ROOT-PEM''"]
      verifyServerCert_verdict [OF d3, of "''ROOT-PEM''"]
      verifyServerCert_verdict [OF d1, of "''garbage''"]
    by (simp add: example_library_def example_Verify_def)
qed

subsection \<open>The dispatcher\<close>

lemma dispatch_map: "dispatch ms = map processMessage [m. Some m \<leftarrow> ms]"
  by (induction ms rule: dispatch.induct) simp_all

text \<open>
  Claim C5, as stated: the message built for a record carries the time of dispatch in
  \<open>metadata.receivedAt\<close>, not the zero timestamp. The literal in \<open>processMessage\<close> does
  not name the field \<open>Metadata\<close>, and nothing assigns it afterwards: for the record of
  partition 2 and offset 57, the field holds the zero timestamp.
\<close>

theorem processMessage_receivedAt_is_zero:
  "ReceivedAt (Metadata (fst (processMessage
      \<lparr>msg_Partition = 2, msg_Offset = 57, msg_Topic = ''order_events'',
       msg_Value = ''{}''\<rparr>)))
   = zero_time"
  by (simp add: processMessage_def new_Message_def zero_messageMetadata_def)

text \<open>
  Claim C5, amended: for every stream of inbound records, the dispatcher builds one
  message per record that is not \<^verbatim>\<open>nil\<close>, in order, with the partition, the offset, the
  topic and the value of the record; \<open>metadata.receivedAt\<close> is not assigned and holds the
  zero timestamp.
\<close>

theorem dispatch_builds_messages:
  "map fst (dispatch ms) = map new_Message [m. Some m \<leftarrow> ms]
   \<and> Partition (new_Message msg) = msg_Partition msg
   \<and> Offset (new_Message msg) = msg_Offset msg
   \<and> Topic (new_Message msg) = msg_Topic msg
   \<and> Value (new_Message msg) = msg_Value msg
   \<and> ReceivedAt (Metadata (new_Message msg)) = zero_time"
  by (simp add: dispatch_map processMessage_def new_Message_def zero_messageMetadata_def
                comp_def)

theorem dispatch_builds_messages_witness:
  "map fst (dispatch
     [Some \<lparr>msg_Partition = 2, msg_Offset = 57, msg_Topic = ''order_events'',
            msg_Value = ''{}''\<rparr>,
      None,
      Some \<lparr>msg_Partition = 0, msg_Offset = 0, msg_Topic = ''order_events'',
            msg_Value = ''''\<rparr>])
   = [\<lparr>Partition = 2, Offset = 57, Topic = ''order_events'', Value = ''{}'',
       Metadata = \<lparr>ReceivedAt = 0\<rparr>\<rparr>,
      \<lparr>Partition = 0, Offset = 0, Topic = ''order_events'', Value = '''',
       Metadata = \<lparr>ReceivedAt = 0\<rparr>\<rparr>]"
  using dispatch_builds_messages
    [of "[Some \<lparr>msg_Partition = 2, msg_Offset = 57, msg_Topic = ''order_events'',
                 msg_Value = ''{}''\<rparr>,
           None,
           Some \<lparr>msg_Partition = 0, msg_Offset = 0, msg_Topic = ''order_events'',
                 msg_Value = ''''\<rparr>]"]
  by (simp add: new_Message_def zero_messageMetadata_def zero_time_def)

subsection \<open>The supervision loops\<close>

lemma ShowNotifications_loop_None: "ShowNotifications_loop evs printed = None"
proof (cases "ShowNotifications_loop evs printed")
  case None
  then show ?thesis .
next
  case (Some r)
  then have False
    by (rule ShowNotifications_loop.raw_induct [where P = "\<lambda>_ _ _. False", rotated]) blast
  then show ?thesis ..
qed

lemma ShowErrors_loop_None: "ShowErrors_loop evs printed = None"
proof (cases "ShowErrors_loop evs printed")
  case None
  then show ?thesis .
next
  case (Some r)
  then have False
    by (rule ShowErrors_loop.raw_induct [where P = "\<lambda>_ _ _. False", rotated]) blast
  then show ?thesis ..
qed

text \<open>
  Claim C6, as stated: the loops terminate when all their source channels are closed.
  With both sources of each loop closed, every receive delivers \<^verbatim>\<open>nil\<close> at once, the
  body skips it and the loop goes round again: neither function returns.
\<close>

theorem supervision_loops_spin_on_closed_channels:
  "ShowNotifications notifications_all_closed = None
   \<and> ShowErrors errors_all_closed = None"
  by (simp add: ShowNotifications_def ShowErrors_def ShowNotifications_loop_None
                ShowErrors_loop_None)

text \<open>
  Claim C6, amended: for every sequence of received events, neither loop exits, whether
  its source channels are open or closed; a \<^verbatim>\<open>nil\<close> received from a closed channel
  prints nothing. The loops end with the process only.
\<close>

theorem supervision_loops_never_return:
  "ShowNotifications evs = None
   \<and> ShowErrors evs' = None
   \<and> ShowNotifications_body (Recv_Notifications None) = []
   \<and> ShowNotifications_body (Recv_Successes None) = []
   \<and> ShowErrors_body (Recv_Consumer_Errors None) = []
   \<and> ShowErrors_body (Recv_Producer_Errors None) = []"
  by (simp add: ShowNotifications_def ShowErrors_def ShowNotifications_loop_None
                ShowErrors_loop_None)

theorem supervision_loops_never_return_witness:
  "ShowNotifications
     (sconst (Recv_Successes (Some \<lparr>success_Topic = ''order_events'', success_Value = ''{}''\<rparr>)))
     = None
   \<and> ShowErrors (sconst (Recv_Consumer_Errors (Some ''kafka: broker not available''))) = None"
  using supervision_loops_never_return
    [of "sconst (Recv_Successes (Some \<lparr>success_Topic = ''order_events'',
                                        success_Value = ''{}''\<rparr>))"
        "sconst (Recv_Consumer_Errors (Some ''kafka: broker not available''))"]
  by simp

subsection \<open>The close paths\<close>

text \<open>
  Claim C4, as stated: a guard lets only one caller perform the actual close. There is
  none in \<open>main\<close>: in the schedule where the signal handler closes both handles, the
  message loop ends because the consumer is closed, and the deferred calls run before
  the handler reaches \<^verbatim>\<open>os.Exit\<close>, \<^verbatim>\<open>Close\<close> reaches the producer twice and the
  consumer twice.
\<close>

theorem both_close_paths_reach_the_handles:
  "[Producer_Close, Consumer_Close, Consumer_Close, Producer_Close, os_Exit 0, os_Exit 1]
     \<in> set close_schedules
   \<and> producer_close_calls (exec_calls
        [Producer_Close, Consumer_Close, Consumer_Close, Producer_Close, os_Exit 0, os_Exit 1])
      = 2
   \<and> consumer_close_calls (exec_calls
        [Producer_Close, Consumer_Close, Consumer_Close, Producer_Close, os_Exit 0, os_Exit 1])
      = 2"
  by (simp add: close_schedules_def signal_handler_def deferred_cleanup_def exec_calls_def
                running_def)

text \<open>
  Claim C4, amended: \<open>main\<close> has no guard around the close path. Every \<^verbatim>\<open>Close\<close> call
  made before the process exits reaches its handle, whatever was called before; when the
  signal handler and the deferred cleanup both run, each handle receives \<^verbatim>\<open>Close\<close> once
  or twice, depending on the schedule, and in every schedule both handles have been
  closed when the process exits. Whether the second \<^verbatim>\<open>Close\<close> on a handle is harmless
  is up to the handle's library.
\<close>

theorem close_paths_are_unguarded:
  "(\<forall>sched \<in> set close_schedules.
       producer_close_calls (exec_calls sched) \<in> {1, 2}
     \<and> consumer_close_calls (exec_calls sched) \<in> {1, 2}
     \<and> exit_status (exec_calls sched) \<in> {Some 0, Some 1})
   \<and> (exit_status s = None \<longrightarrow>
         producer_close_calls (exec_call s Producer_Close) = Suc (producer_close_calls s)
       \<and> consumer_close_calls (exec_call s Consumer_Close) = Suc (consumer_close_calls s))"
  by (simp add: close_schedules_def signal_handler_def deferred_cleanup_def exec_calls_def
                running_def)

theorem close_paths_are_unguarded_witness:
  "[Producer_Close, Consumer_Close, os_Exit 1, Consumer_Close, Producer_Close, os_Exit 0]
     \<in> set close_schedules
   \<and> producer_close_calls (exec_calls
        [Producer_Close, Consumer_Close, os_Exit 1, Consumer_Close, Producer_Close, os_Exit 0])
      \<in> {1, 2}
   \<and> exit_status (exec_calls
        [Producer_Close, Consumer_Close, os_Exit 1, Consumer_Close, Producer_Close, os_Exit 0])
      = Some 1
   \<and> exit_status running = None
   \<and> producer_close_calls (exec_call (exec_call running Producer_Close) Producer_Close) = 2"
proof -
  have m: "[Producer_Close, Consumer_Close, os_Exit 1, Consumer_Close, Producer_Close, os_Exit 0]
             \<in> set close_schedules"
    by (simp add: close_schedules_def signal_handler_def deferred_cleanup_def)
  have r: "exit_status (exec_call running Producer_Close) = None"
    by (simp add: running_def)
  show ?thesis
    using m r
      close_paths_are_unguarded [of running, THEN conjunct1, THEN bspec, OF m]
      close_paths_are_unguarded [of "exec_call running Producer_Close", THEN conjunct2]
    by (simp add: exec_calls_def running_def)
qed

subsection \<open>Broker addresses\<close>

lemma strings_Split_nonempty: "strings_Split s c \<noteq> []"
  by (induction s) (auto split: list.splits)

lemma length_strings_Split: "length (strings_Split s c) = Suc (count_list s c)"
  by (induction s) (auto split: list.splits simp: strings_Split_nonempty)

lemma strings_Split_no_separator: "p \<in> set (strings_Split s c) \<Longrightarrow> c \<notin> set p"
  by (induction s arbitrary: p) (auto split: list.splits if_splits)

lemma strings_Join_Cons:
  "ps \<noteq> [] \<Longrightarrow> strings_Join (p # ps) sep = p @ sep @ strings_Join ps sep"
  by (cases ps) simp_all

lemma strings_Join_Split: "strings_Join (strings_Split s c) [c] = s"
proof (induction s)
  case Nil
  then show ?case by simp
next
  case (Cons x xs)
  show ?case
  proof (cases "strings_Split xs c")
    case Nil
    then show ?thesis using strings_Split_nonempty [of xs c] by simp
  next
    case (Cons p ps)
    with Cons.IH show ?thesis
      by (cases ps) (auto simp: strings_Join_Cons strings_Split_nonempty)
  qed
qed

lemma parse_hosts_ok:
  "\<forall>v \<in> set vs. \<exists>u. url_Parse L v = Inr u \<Longrightarrow>
   parse_hosts L vs = ([], Inr (map (\<lambda>v. Host (projr (url_Parse L v))) vs))"
  by (induction vs) (auto simp: ret_def and_then_def)

lemma parse_hosts_trace: "fst (parse_hosts L vs) = []"
  by (induction vs) (auto simp: and_then_fst ret_def log_Fatal_def split: sum.splits)

lemma parse_hosts_Inl_Fatal: "snd (parse_hosts L vs) = Inl f \<Longrightarrow> \<exists>e. f = Fatal e"
  by (induction vs arbitrary: f)
     (auto simp: and_then_snd ret_def log_Fatal_def split: sum.splits)

lemma parse_hosts_Inr_all:
  "snd (parse_hosts L vs) = Inr addrs \<Longrightarrow> v \<in> set vs \<Longrightarrow> \<exists>u. url_Parse L v = Inr u"
  by (induction vs arbitrary: addrs)
     (auto simp: and_then_snd ret_def log_Fatal_def split: sum.splits)

lemma parse_hosts_length: "snd (parse_hosts L vs) = Inr addrs \<Longrightarrow> length addrs = length vs"
  by (induction vs arbitrary: addrs)
     (auto simp: and_then_snd ret_def log_Fatal_def split: sum.splits)

text \<open>
  Claim C8: for a comma-separated list of broker URLs, each of which parses,
  \<open>brokerAddresses\<close> returns one endpoint per entry, in the order of the entries, and the
  endpoint of an entry is the \<open>Host\<close> (the \<^verbatim>\<open>host:port\<close>) of the URL parsed from it. The
  entries are the pieces of the list between its commas: joined by commas they give the
  list back, none contains a comma, and there is one more of them than there are commas.
  (An entry that does not parse ends the process: \<open>parse_hosts_Inr_all\<close>.)
\<close>

theorem brokerAddresses_one_endpoint_per_entry:
  assumes "\<forall>v \<in> set (strings_Split (URL kc) CHR '',''). \<exists>u. url_Parse L v = Inr u"
  shows "brokerAddresses L kc
           = ([], Inr (map (\<lambda>v. Host (projr (url_Parse L v)))
                           (strings_Split (URL kc) CHR '','')))
       \<and> strings_Join (strings_Split (URL kc) CHR '','') '','' = URL kc
       \<and> (\<forall>p \<in> set (strings_Split (URL kc) CHR '',''). CHR '','' \<notin> set p)
       \<and> length (strings_Split (URL kc) CHR '','') = Suc (count_list (URL kc) CHR '','')"
  using assms
  by (simp add: brokerAddresses_def parse_hosts_ok strings_Join_Split
                strings_Split_no_separator length_strings_Split)

theorem brokerAddresses_one_endpoint_per_entry_witness:
  "strings_Split (URL example_config) CHR '','' = [''kafka+ssl://b1:9096'', ''kafka+ssl://b2:9096'']
   \<and> brokerAddresses example_library example_config = ([], Inr [''b1:9096'', ''b2:9096''])"
proof -
  have h: "\<forall>v \<in> set (strings_Split (URL example_config) CHR '','').
             \<exists>u. url_Parse example_library v = Inr u"
    by (simp add: example_config_def example_library_def example_Parse_def)
  show ?thesis
    using brokerAddresses_one_endpoint_per_entry [OF h]
    by (simp add: example_config_def example_library_def example_Parse_def)
qed

subsection \<open>Client identifiers\<close>

text \<open>
  Claim C7, as stated: the client identifier starts with the prefix-qualified group
  name. Both factories join \<open>kc.ConsumerGroup\<close>, the base name, with the formatted time:
  under the prefix \<^verbatim>\<open>staging.\<close> the identifier of the consumer and of the producer
  starts with the base group, while the qualified group carries the prefix.
\<close>

theorem clientID_is_not_prefixed:
  "map_sum id (ClientID \<circ> consumer_config)
     (snd (createKafkaConsumer example_library 1000 example_config [''b1:9096'']
             example_tls_Config))
     = Inr ''heroku-kafka-demo-go-t1000''
   \<and> map_sum id (ClientID \<circ> producer_config)
     (snd (createKafkaProducer example_library 1000 example_config [''b1:9096'']
             example_tls_Config))
     = Inr ''heroku-kafka-demo-go-t1000''
   \<and> strings_Join [group example_config,
                    time_Format example_library 1000 ''20200102150405''] ''-''
     = ''staging.heroku-kafka-demo-go-t1000''"
  by (simp add: createKafkaConsumer_def createKafkaProducer_def clientID_def
                creation_timestamp_def and_then_snd emit_def ret_def example_library_def
                example_config_def group_def example_Format_def Let_def)

text \<open>
  Claim C7, amended: for every configuration, the client identifier given to the
  consumer and to the producer is the base consumer-group name, not the prefix-qualified
  one, also when a prefix is configured, followed by \<^verbatim>\<open>-\<close>, followed by the creation
  timestamp in the rendering that the call of the time library returns.
\<close>

theorem clientID_is_base_group_and_time:
  "(\<forall>h. snd (createKafkaConsumer L now kc brokers tc) = Inr h \<longrightarrow>
        ClientID (consumer_config h) = ConsumerGroup kc @ ''-'' @ creation_timestamp L now)
   \<and> (\<forall>h. snd (createKafkaProducer L now kc brokers tc) = Inr h \<longrightarrow>
        ClientID (producer_config h) = ConsumerGroup kc @ ''-'' @ creation_timestamp L now)"
  by (auto simp: createKafkaConsumer_def createKafkaProducer_def clientID_def and_then_snd
                 emit_def ret_def log_Fatal_def Let_def
           split: option.splits)

theorem clientID_is_base_group_and_time_witness:
  "Prefix example_config = ''staging.''
   \<and> ConsumerGroup example_config = ''heroku-kafka-demo-go''
   \<and> group example_config = ''staging.heroku-kafka-demo-go''
   \<and> snd (createKafkaConsumer example_library 1000 example_config [''b1:9096'', ''b2:9096'']
            example_tls_Config)
       = Inr example_consumer
   \<and> consumer_group example_consumer = ''staging.heroku-kafka-demo-go''
   \<and> ClientID (consumer_config example_consumer) = ''heroku-kafka-demo-go-t1000''
   \<and> snd (createKafkaProducer example_library 1001 example_config [''b1:9096'', ''b2:9096'']
            example_tls_Config)
       = Inr example_producer
   \<and> ClientID (producer_config example_producer) = ''heroku-kafka-demo-go-t1001''"
proof -
  have c: "snd (createKafkaConsumer example_library 1000 example_config
                  [''b1:9096'', ''b2:9096''] example_tls_Config)
           = Inr example_consumer"
    by (simp add: createKafkaConsumer_def clientID_def creation_timestamp_def and_then_snd
                  emit_def ret_def example_library_def example_config_def example_Format_def
                  example_consumer_def example_sarama_Config_def group_def topic_def Let_def)
  have p: "snd (createKafkaProducer example_library 1001 example_config
                  [''b1:9096'', ''b2:9096''] example_tls_Config)
           = Inr example_producer"
    by (simp add: createKafkaProducer_def clientID_def creation_timestamp_def and_then_snd
                  emit_def ret_def example_library_def example_config_def example_Format_def
                  example_producer_def example_sarama_Config_def Let_def)
  have t: "creation_timestamp example_library 1000 = ''t1000''
           \<and> creation_timestamp example_library 1001 = ''t1001''"
    by (simp add: creation_timestamp_def example_library_def example_Format_def)
  show ?thesis
    using c p t
      clientID_is_base_group_and_time
        [of example_library 1000 example_config "[''b1:9096'', ''b2:9096'']"
            example_tls_Config, THEN conjunct1, rule_format, OF c]
      clientID_is_base_group_and_time
        [of example_library 1001 example_config "[''b1:9096'', ''b2:9096'']"
            example_tls_Config, THEN conjunct2, rule_format, OF p]
    by (simp add: example_config_def group_def example_consumer_def)
qed

subsection \<open>Startup\<close>

lemma load_config_trace: "fst (load_config L) = []"
  by (auto simp: load_config_def MustDecode_def decode_material_def decodeBase64_def
                 and_then_fst and_then_snd ret_def log_Fatal_def
           split: sum.splits)

lemma load_config_Inl_Fatal: "snd (load_config L) = Inl f \<Longrightarrow> \<exists>msg. f = Fatal msg"
  by (auto simp: load_config_def MustDecode_def decode_material_def decodeBase64_def
                 and_then_snd ret_def log_Fatal_def
           split: sum.splits if_splits)

lemma createTLSConfig_trace: "e \<in> set (fst (createTLSConfig L kc)) \<Longrightarrow> \<not> constructs e"
  by (auto simp: createTLSConfig_def AppendCertsFromPEM_def and_then_fst and_then_snd
                 ret_def emit_def log_Fatal_def
           split: sum.splits if_splits)

lemma createTLSConfig_Inl_Fatal: "snd (createTLSConfig L kc) = Inl f \<Longrightarrow> \<exists>msg. f = Fatal msg"
  by (auto simp: createTLSConfig_def AppendCertsFromPEM_def and_then_snd
                 ret_def emit_def log_Fatal_def
           split: sum.splits if_splits)

lemma brokerAddresses_trace: "fst (brokerAddresses L kc) = []"
  by (simp add: brokerAddresses_def parse_hosts_trace)

lemma brokerAddresses_nonempty: "snd (brokerAddresses L kc) = Inr brokers \<Longrightarrow> brokers \<noteq> []"
  using parse_hosts_length [of L "strings_Split (URL kc) CHR '',''" brokers]
        strings_Split_nonempty [of "URL kc" "CHR '',''"]
  by (auto simp: brokerAddresses_def)

lemma verifyServerCert_trace:
  "e \<in> set (fst (verifyServerCert L tc caCert url)) \<Longrightarrow> \<not> constructs e"
  by (auto simp: verifyServerCert_def AppendCertsFromPEM_def and_then_fst and_then_snd
                 ret_def emit_def panic_def
           split: sum.splits list.splits option.splits if_splits)

lemma verifyServerCert_dials:
  "Ev_Dial url \<in> set (fst (verifyServerCert L tc caCert url))"
  by (auto simp: verifyServerCert_def and_then_fst emit_def)

lemma verifyServerCert_pass:
  "snd (verifyServerCert L tc caCert url) = Inr (True, None)
   \<Longrightarrow> verifyServerCert L tc caCert url = ([Ev_Dial url], Inr (True, None))"
  by (auto simp: verifyServerCert_def AppendCertsFromPEM_def and_then_def
                 ret_def emit_def panic_def
           split: sum.splits list.splits option.splits if_splits)

lemma verifyServerCert_results:
  "snd (verifyServerCert L tc caCert url) = Inr (True, None)
   \<or> (\<exists>err. snd (verifyServerCert L tc caCert url) = Inr (False, Some err))
   \<or> (\<exists>msg. snd (verifyServerCert L tc caCert url) = Inl (Panic msg))"
  by (auto simp: verifyServerCert_def AppendCertsFromPEM_def and_then_snd
                 ret_def emit_def panic_def
           split: sum.splits list.splits option.splits if_splits)

lemma verifyServerCert_unparsed:
  "pem_certificates L caCert = [] \<Longrightarrow>
     (\<exists>err. snd (verifyServerCert L tc caCert url) = Inr (False, Some err))
   \<or> (tls_Dial L url tc = Inr []
        \<and> snd (verifyServerCert L tc caCert url) = Inl (Panic ''index out of range [0] with length 0''))"
  by (auto simp: verifyServerCert_def AppendCertsFromPEM_def and_then_snd
                 ret_def emit_def panic_def
           split: sum.splits list.splits option.splits if_splits)

lemma verify_brokers_trace:
  "e \<in> set (fst (verify_brokers L tc caCert bs)) \<Longrightarrow> \<not> constructs e"
proof (induction bs)
  case Nil
  then show ?case by (simp add: ret_def)
next
  case (Cons b bs)
  then show ?case
    using verifyServerCert_trace [of e L tc caCert b]
    by (auto simp: and_then_fst log_Fatal_def split: sum.splits option.splits if_splits prod.splits)
qed

lemma verify_brokers_pass:
  "snd (verify_brokers L tc caCert bs) = Inr u \<Longrightarrow>
     fst (verify_brokers L tc caCert bs) = map Ev_Dial bs
   \<and> (\<forall>b \<in> set bs. verifyServerCert L tc caCert b = ([Ev_Dial b], Inr (True, None)))"
proof (induction bs)
  case Nil
  then show ?case by (simp add: ret_def)
next
  case (Cons b bs)
  from Cons.prems have v: "snd (verifyServerCert L tc caCert b) = Inr (True, None)"
    by (auto simp: and_then_snd log_Fatal_def split: sum.splits option.splits if_splits prod.splits)
  with Cons.prems have r: "snd (verify_brokers L tc caCert bs) = Inr u"
    by (simp add: and_then_snd)
  from v have p: "verifyServerCert L tc caCert b = ([Ev_Dial b], Inr (True, None))"
    by (rule verifyServerCert_pass)
  from Cons.IH [OF r] p show ?case
    by (simp add: and_then_fst)
qed

lemma verify_brokers_failure:
  "snd (verify_brokers L tc caCert bs) = Inl f \<Longrightarrow>
     (\<exists>msg. f = Fatal msg) \<or> (\<exists>b \<in> set bs. snd (verifyServerCert L tc caCert b) = Inl f)"
proof (induction bs)
  case Nil
  then show ?case by (simp add: ret_def)
next
  case (Cons b bs)
  then show ?case
    by (auto simp: and_then_snd log_Fatal_def split: sum.splits option.splits if_splits prod.splits)
qed

lemma verify_brokers_first_unparsed:
  assumes "pem_certificates L caCert = []"
  shows "(\<exists>msg. snd (verify_brokers L tc caCert (b # bs)) = Inl (Fatal msg))
       \<or> (tls_Dial L b tc = Inr []
           \<and> snd (verify_brokers L tc caCert (b # bs)) = Inl (Panic ''index out of range [0] with length 0''))"
  using verifyServerCert_unparsed [OF assms, of tc b]
  by (auto simp: and_then_snd log_Fatal_def)

lemma construct_before:
  "xs @ ys = pre @ e # post \<Longrightarrow> \<forall>x \<in> set xs. \<not> P x \<Longrightarrow> P e \<Longrightarrow> set xs \<subseteq> set pre"
proof (induction xs arbitrary: pre)
  case Nil
  then show ?case by simp
next
  case (Cons x xs)
  then show ?case
    by (cases pre) auto
qed

lemma Connect_trace:
  assumes "snd (load_config L) = Inr cfg" "snd (createTLSConfig L cfg) = Inr tc"
    "snd (brokerAddresses L cfg) = Inr brokers"
  shows "fst (Connect L kc)
     = (Ev_Println ''Connecting to Kafka brokers...'' # fst (createTLSConfig L cfg)
          @ fst (verify_brokers L tc (TrustedCert cfg) brokers))
       @ (case snd (verify_brokers L tc (TrustedCert cfg) brokers) of
            Inl f \<Rightarrow> []
          | Inr u \<Rightarrow> Ev_Log ''All broker server certificates are valid!''
                     # fst (construct_clients L kc cfg brokers tc))"
  using assms
  by (simp add: Connect_def and_then_fst and_then_snd emit_def load_config_trace
                brokerAddresses_trace split: sum.splits)

lemma Connect_result:
  assumes "snd (load_config L) = Inr cfg" "snd (createTLSConfig L cfg) = Inr tc"
    "snd (brokerAddresses L cfg) = Inr brokers"
  shows "snd (Connect L kc)
     = (case snd (verify_brokers L tc (TrustedCert cfg) brokers) of
          Inl f \<Rightarrow> Inl f
        | Inr u \<Rightarrow> snd (construct_clients L kc cfg brokers tc))"
  using assms
  by (simp add: Connect_def and_then_snd emit_def split: sum.splits)

text \<open>
  Claim C1: every configured broker endpoint passes certificate verification before the
  consumer or the producer is constructed, and one endpoint whose verification returns
  an error or a result that is not ok ends startup with neither constructed.

  For a run that reaches the verification loop with configuration \<open>cfg\<close>, TLS
  configuration \<open>tc\<close> and endpoints \<open>brokers\<close>:
  \<^item> wherever the trace of \<open>Connect\<close> has a constructing event, every endpoint was dialled
    before it, and the verification of every endpoint returned \<open>(true, nil)\<close>;
  \<^item> if the verification of some endpoint returns an error or \<open>ok = false\<close>, then
    \<open>Connect\<close> ends the process, its trace holds no constructing event, and the end is
    a \<^verbatim>\<open>log.Fatal\<close>, unless the verification of an endpoint did not return at all but
    panicked.
\<close>

theorem Connect_verifies_every_broker_before_constructing:
  assumes cfg: "snd (load_config L) = Inr cfg"
    and tc: "snd (createTLSConfig L cfg) = Inr tc"
    and bs: "snd (brokerAddresses L cfg) = Inr brokers"
  shows "(\<forall>pre e post. fst (Connect L kc) = pre @ e # post \<and> constructs e \<longrightarrow>
            (\<forall>b \<in> set brokers.
                Ev_Dial b \<in> set pre
              \<and> verifyServerCert L tc (TrustedCert cfg) b = ([Ev_Dial b], Inr (True, None))))
       \<and> (\<forall>b \<in> set brokers. \<forall>ok err.
            snd (verifyServerCert L tc (TrustedCert cfg) b) = Inr (ok, err)
              \<and> (\<not> ok \<or> err \<noteq> None) \<longrightarrow>
            (\<exists>f. snd (Connect L kc) = Inl f
               \<and> ((\<exists>msg. f = Fatal msg)
                   \<or> (\<exists>b' \<in> set brokers.
                         snd (verifyServerCert L tc (TrustedCert cfg) b') = Inl f)))
          \<and> (\<forall>e \<in> set (fst (Connect L kc)). \<not> constructs e))"
proof -
  let ?v = "verify_brokers L tc (TrustedCert cfg) brokers"
  let ?head = "Ev_Println ''Connecting to Kafka brokers...'' # fst (createTLSConfig L cfg) @ fst ?v"
  have quiet: "\<forall>x \<in> set ?head. \<not> constructs x"
    using createTLSConfig_trace [of _ L cfg]
          verify_brokers_trace [of _ L tc "TrustedCert cfg" brokers]
    by auto
  have first: "Ev_Dial b \<in> set pre
     \<and> verifyServerCert L tc (TrustedCert cfg) b = ([Ev_Dial b], Inr (True, None))"
    if split: "fst (Connect L kc) = pre @ e # post \<and> constructs e" and b: "b \<in> set brokers"
    for pre e post b
  proof -
    obtain u where pass: "snd ?v = Inr u"
    proof (cases "snd ?v")
      case (Inl f)
      with Connect_trace [OF cfg tc bs, of kc] have "fst (Connect L kc) = ?head" by simp
      with split quiet have False by auto
      then show ?thesis ..
    next
      case (Inr u)
      then show ?thesis by (rule that)
    qed
    from verify_brokers_pass [OF pass]
    have dials: "fst ?v = map Ev_Dial brokers"
      and ok: "\<forall>b \<in> set brokers.
                 verifyServerCert L tc (TrustedCert cfg) b = ([Ev_Dial b], Inr (True, None))"
      by simp_all
    from Connect_trace [OF cfg tc bs, of kc] pass split
    have "?head @ (Ev_Log ''All broker server certificates are valid!''
                    # fst (construct_clients L kc cfg brokers tc)) = pre @ e # post"
      by simp
    from construct_before [OF this quiet] split have "set ?head \<subseteq> set pre" by simp
    with dials b have "Ev_Dial b \<in> set pre" by auto
    with ok b show ?thesis by simp
  qed
  have second: "(\<exists>f. snd (Connect L kc) = Inl f
               \<and> ((\<exists>msg. f = Fatal msg)
                   \<or> (\<exists>b' \<in> set brokers.
                         snd (verifyServerCert L tc (TrustedCert cfg) b') = Inl f)))
          \<and> (\<forall>e \<in> set (fst (Connect L kc)). \<not> constructs e)"
    if b: "b \<in> set brokers"
      and fail: "snd (verifyServerCert L tc (TrustedCert cfg) b) = Inr (ok, err)
                 \<and> (\<not> ok \<or> err \<noteq> None)"
    for b ok err
  proof -
    obtain f where f: "snd ?v = Inl f"
    proof (cases "snd ?v")
      case (Inl f)
      then show ?thesis by (rule that)
    next
      case (Inr u)
      from verify_brokers_pass [OF Inr] b fail have False by auto
      then show ?thesis ..
    qed
    have res: "snd (Connect L kc) = Inl f"
      using Connect_result [OF cfg tc bs, of kc] f by simp
    have tr: "fst (Connect L kc) = ?head"
      using Connect_trace [OF cfg tc bs, of kc] f by simp
    from verify_brokers_failure [OF f] res quiet tr show ?thesis
      by simp
  qed
  from first second show ?thesis by blast
qed

subsection \<open>Startup in the concrete environments\<close>

lemmas example_defs =
  example_library_def example_config_def example_Parse_def example_Dial_def
  example_Verify_def example_Format_def example_tls_Config_def example_sarama_Config_def
  failing_library_def failing_config_def unparsed_library_def unparsed_config_def
  new_Client_def

lemmas startup_defs =
  Connect_def load_config_def MustDecode_def decode_material_def decodeBase64_def
  createTLSConfig_def AppendCertsFromPEM_def brokerAddresses_def verifyServerCert_def
  construct_clients_def createKafkaConsumer_def createKafkaProducer_def clientID_def
  creation_timestamp_def
  topic_def group_def fmt_strings_def
  and_then_def ret_def emit_def log_Fatal_def panic_def Let_def

lemma ex_load: "snd (load_config example_library) = Inr example_config"
  by (simp add: startup_defs example_library_def)

lemma ex_tls: "snd (createTLSConfig example_library example_config) = Inr example_tls_Config"
  by (simp add: startup_defs example_defs)

lemma ex_brokers: "snd (brokerAddresses example_library example_config) = Inr [''b1:9096'', ''b2:9096'']"
  by (simp add: startup_defs example_defs)

lemma ex_trace: "fst (Connect example_library new_Client)
   = [Ev_Println ''Connecting to Kafka brokers...'',
      Ev_Dial ''b1:9096'', Ev_Dial ''b2:9096'',
      Ev_Log ''All broker server certificates are valid!'',
      Ev_Log ''Consuming topic [staging.order_events] on brokers: [b1:9096 b2:9096]'',
      Ev_NewConsumer [''b1:9096'', ''b2:9096''] ''staging.heroku-kafka-demo-go'' [''staging.order_events''],
      Ev_NewAsyncProducer [''b1:9096'', ''b2:9096'']]"
  by (simp add: startup_defs example_defs)

lemma fl_load: "snd (load_config failing_library) = Inr failing_config"
  by (simp add: startup_defs example_defs)

lemma fl_tls: "snd (createTLSConfig failing_library failing_config) = Inr example_tls_Config"
  by (simp add: startup_defs example_defs)

lemma fl_brokers: "snd (brokerAddresses failing_library failing_config) = Inr [''b1:9096'', ''b3:9096'', ''b2:9096'']"
  by (simp add: startup_defs example_defs)

lemma fl_b3: "snd (verifyServerCert failing_library example_tls_Config (TrustedCert failing_config) ''b3:9096'')
   = Inr (False, Some ''x509: certificate signed by unknown authority'')"
  by (simp add: startup_defs example_defs)

lemma fl_connect: "Connect failing_library new_Client
   = ([Ev_Println ''Connecting to Kafka brokers...'', Ev_Dial ''b1:9096'', Ev_Dial ''b3:9096'',
       Ev_Log ''Unable to verify Server Cert''],
      Inl (Fatal ''Get Server Cert Error: x509: certificate signed by unknown authority''))"
  by (simp add: startup_defs example_defs)

lemma up_connect: "Connect unparsed_library new_Client
   = ([Ev_Println ''Connecting to Kafka brokers...'', Ev_Log ''Unable to parse Root Cert: garbage'',
       Ev_Dial ''b1:9096''],
      Inl (Fatal ''Get Server Cert Error: Unable to parse Trusted Cert''))"
  by (simp add: startup_defs example_defs)

theorem Connect_verifies_every_broker_before_constructing_witness:
  "fst (Connect example_library new_Client)
     = [Ev_Println ''Connecting to Kafka brokers...'',
        Ev_Dial ''b1:9096'', Ev_Dial ''b2:9096'',
        Ev_Log ''All broker server certificates are valid!'',
        Ev_Log ''Consuming topic [staging.order_events] on brokers: [b1:9096 b2:9096]'']
       @ Ev_NewConsumer [''b1:9096'', ''b2:9096''] ''staging.heroku-kafka-demo-go''
           [''staging.order_events'']
       # [Ev_NewAsyncProducer [''b1:9096'', ''b2:9096'']]
   \<and> verifyServerCert example_library example_tls_Config (TrustedCert example_config)
         ''b1:9096''
       = ([Ev_Dial ''b1:9096''], Inr (True, None))
   \<and> verifyServerCert example_library example_tls_Config (TrustedCert example_config)
         ''b2:9096''
       = ([Ev_Dial ''b2:9096''], Inr (True, None))
   \<and> snd (verifyServerCert failing_library example_tls_Config (TrustedCert failing_config)
            ''b3:9096'')
       = Inr (False, Some ''x509: certificate signed by unknown authority'')
   \<and> snd (Connect failing_library new_Client)
       = Inl (Fatal ''Get Server Cert Error: x509: certificate signed by unknown authority'')
   \<and> filter constructs (fst (Connect failing_library new_Client)) = []"
proof -
  have tr: "fst (Connect example_library new_Client)
     = [Ev_Println ''Connecting to Kafka brokers...'',
        Ev_Dial ''b1:9096'', Ev_Dial ''b2:9096'',
        Ev_Log ''All broker server certificates are valid!'',
        Ev_Log ''Consuming topic [staging.order_events] on brokers: [b1:9096 b2:9096]'']
       @ Ev_NewConsumer [''b1:9096'', ''b2:9096''] ''staging.heroku-kafka-demo-go''
           [''staging.order_events'']
       # [Ev_NewAsyncProducer [''b1:9096'', ''b2:9096'']]"
    using ex_trace by simp
  have c: "constructs (Ev_NewConsumer [''b1:9096'', ''b2:9096''] ''staging.heroku-kafka-demo-go''
           [''staging.order_events''])"
    by simp
  have m: "''b3:9096'' \<in> set [''b1:9096'', ''b3:9096'', ''b2:9096'']"
    by simp
  note pass = Connect_verifies_every_broker_before_constructing [OF ex_load ex_tls ex_brokers, of new_Client, THEN conjunct1, rule_format,
                  OF conjI, OF tr c]
  note fail = Connect_verifies_every_broker_before_constructing [OF fl_load fl_tls fl_brokers, of new_Client, THEN conjunct2, rule_format,
                  OF m conjI, OF fl_b3 disjI1]
  from pass fail tr fl_b3 show ?thesis
    by (simp add: fl_connect)
qed

text \<open>
  Claim C9: when no certificate parses out of the trusted-root material that the run
  loaded, the process ends during startup and no consumer or producer is constructed,
  although \<open>createTLSConfig\<close> only logs the parse failure: with a client key pair that
  parses it returns a configuration with an empty pool of roots. The end is a
  \<^verbatim>\<open>log.Fatal\<close>: of the key pair, of the broker list, or, on the verification path, of
  the first endpoint, whose dial fails or whose verification reports the bundle
  unparseable; only if that endpoint completes the handshake without any certificate
  does the process end by the panic of \<open>verifyServerCert\<close> instead. The broker list is
  never empty, so the verification loop runs at least once.
\<close>

theorem Connect_unparsed_trusted_cert_ends_startup:
  assumes cfg: "snd (load_config L) = Inr cfg"
    and unparsed: "pem_certificates L (TrustedCert cfg) = []"
  shows "((\<exists>msg. snd (Connect L kc) = Inl (Fatal msg))
          \<or> (\<exists>tc brokers. snd (createTLSConfig L cfg) = Inr tc
                \<and> snd (brokerAddresses L cfg) = Inr brokers
                \<and> tls_Dial L (hd brokers) tc = Inr []
                \<and> snd (Connect L kc) = Inl (Panic ''index out of range [0] with length 0'')))
       \<and> (\<forall>e \<in> set (fst (Connect L kc)). \<not> constructs e)
       \<and> (\<forall>cert. tls_X509KeyPair L (ClientCert cfg) (ClientCertKey cfg) = Inr cert \<longrightarrow>
            createTLSConfig L cfg
              = ([Ev_Log (''Unable to parse Root Cert: '' @ TrustedCert cfg)],
                 Inr \<lparr>Certificates = [cert], InsecureSkipVerify = True, RootCAs = []\<rparr>))"
proof -
  have logs: "\<forall>cert. tls_X509KeyPair L (ClientCert cfg) (ClientCertKey cfg) = Inr cert \<longrightarrow>
            createTLSConfig L cfg
              = ([Ev_Log (''Unable to parse Root Cert: '' @ TrustedCert cfg)],
                 Inr \<lparr>Certificates = [cert], InsecureSkipVerify = True, RootCAs = []\<rparr>)"
    using unparsed
    by (simp add: createTLSConfig_def AppendCertsFromPEM_def and_then_def emit_def ret_def)
  have quiet_tls: "\<forall>e \<in> set (fst (createTLSConfig L cfg)). \<not> constructs e"
    using createTLSConfig_trace [of _ L cfg] by blast
  have main: "((\<exists>msg. snd (Connect L kc) = Inl (Fatal msg))
          \<or> (\<exists>tc brokers. snd (createTLSConfig L cfg) = Inr tc
                \<and> snd (brokerAddresses L cfg) = Inr brokers
                \<and> tls_Dial L (hd brokers) tc = Inr []
                \<and> snd (Connect L kc) = Inl (Panic ''index out of range [0] with length 0'')))
       \<and> (\<forall>e \<in> set (fst (Connect L kc)). \<not> constructs e)"
  proof (cases "snd (createTLSConfig L cfg)")
    case (Inl f)
    with createTLSConfig_Inl_Fatal [OF Inl] cfg quiet_tls show ?thesis
      by (auto simp: Connect_def and_then_fst and_then_snd emit_def load_config_trace)
  next
    case tc: (Inr tc)
    show ?thesis
    proof (cases "snd (brokerAddresses L cfg)")
      case (Inl f)
      then have "\<exists>msg. f = Fatal msg"
        using parse_hosts_Inl_Fatal [of L "strings_Split (URL cfg) CHR '',''" f]
        by (simp add: brokerAddresses_def)
      with Inl cfg tc quiet_tls show ?thesis
        by (auto simp: Connect_def and_then_fst and_then_snd emit_def load_config_trace
                       brokerAddresses_trace)
    next
      case bs: (Inr brokers)
      from brokerAddresses_nonempty [OF bs] obtain b rest where br: "brokers = b # rest"
        by (cases brokers) auto
      let ?v = "verify_brokers L tc (TrustedCert cfg) brokers"
      from verify_brokers_first_unparsed [OF unparsed, of tc b rest] br
      have v: "(\<exists>msg. snd ?v = Inl (Fatal msg))
         \<or> (tls_Dial L (hd brokers) tc = Inr []
             \<and> snd ?v = Inl (Panic ''index out of range [0] with length 0''))"
        by simp
      then obtain f where f: "snd ?v = Inl f" by blast
      have res: "snd (Connect L kc) = Inl f"
        using Connect_result [OF cfg tc bs, of kc] f by simp
      have tr: "fst (Connect L kc)
          = Ev_Println ''Connecting to Kafka brokers...'' # fst (createTLSConfig L cfg) @ fst ?v"
        using Connect_trace [OF cfg tc bs, of kc] f by simp
      have quiet: "\<forall>e \<in> set (fst (Connect L kc)). \<not> constructs e"
        unfolding tr
        using quiet_tls verify_brokers_trace [of _ L tc "TrustedCert cfg" brokers]
        by auto
      from v f res tc bs quiet show ?thesis by auto
    qed
  qed
  from main logs show ?thesis by blast
qed

theorem Connect_unparsed_trusted_cert_ends_startup_witness:
  "snd (load_config unparsed_library) = Inr unparsed_config
   \<and> pem_certificates unparsed_library (TrustedCert unparsed_config) = []
   \<and> snd (Connect unparsed_library new_Client)
       = Inl (Fatal ''Get Server Cert Error: Unable to parse Trusted Cert'')
   \<and> filter constructs (fst (Connect unparsed_library new_Client)) = []
   \<and> createTLSConfig unparsed_library unparsed_config
       = ([Ev_Log ''Unable to parse Root Cert: garbage''],
          Inr \<lparr>Certificates = [\<lparr>certPEM = ''CERT-PEM'', keyPEM = ''KEY-PEM''\<rparr>],
               InsecureSkipVerify = True, RootCAs = []\<rparr>)"
proof -
  have l: "snd (load_config unparsed_library) = Inr unparsed_config"
    by (simp add: startup_defs example_defs)
  have u: "pem_certificates unparsed_library (TrustedCert unparsed_config) = []"
    by (simp add: example_defs)
  have k: "tls_X509KeyPair unparsed_library (ClientCert unparsed_config)
             (ClientCertKey unparsed_config) = Inr \<lparr>certPEM = ''CERT-PEM'', keyPEM = ''KEY-PEM''\<rparr>"
    by (simp add: example_defs)
  from Connect_unparsed_trusted_cert_ends_startup [OF l u, of new_Client] l u k show ?thesis
    by (simp add: up_connect) (simp add: example_defs)
qed

end
